theory Spec2Isabelle
  imports Main "HOL-Library.Log_Nat"
begin

text \<open>
  The engagement backend of \<open>backend/local_app.py\<close> and \<open>backend/modal_app.py\<close>: the
  session store filled by \<open>/track\<close>, the session analyzer, the decision engine with its
  fallback heuristic, and the handler of \<open>/analyze\<close>.  The two files have the same
  handlers and the same pure functions; they differ in \<open>get_ai_decision\<close>, which reads
  the key itself in \<open>local_app.py\<close> only.

  What the code gets from outside is a parameter of the model: the outcome of
  \<open>json.loads\<close> on the request body, the readings of the clock, the key in the
  environment, and the outcome of the call of the text-generation service.  The
  \<open>print\<close> statements, \<open>/health\<close>, the CORS middleware and the serialisation of the
  answers by the framework are not modelled.
\<close>

section \<open>Python values\<close>

text \<open>
  A Python \<open>str\<close> is a sequence of Unicode code points.  Isabelle's \<open>char\<close> has only
  256 values, so a text is a list of code points, and the literals of the source are
  written \<open>str ''...''\<close>.
\<close>

type_synonym pystr = "nat list"

definition str :: "string \<Rightarrow> pystr" where
  "str s = map of_char s"

text \<open>
  A Python \<open>float\<close> is an IEEE-754 double.  Every finite double is an integer multiple
  of \<open>2\<^sup>-\<^sup>1\<^sup>0\<^sup>7\<^sup>4\<close>, so \<open>Fin k\<close> stands for the number \<open>k * 2\<^sup>-\<^sup>1\<^sup>0\<^sup>7\<^sup>4\<close>; \<open>NegZero\<close> is
  \<open>-0.0\<close>.  \<open>json.loads\<close> produces the three non-finite values too (from \<open>Infinity\<close>,
  \<open>-Infinity\<close>, \<open>NaN\<close>, and from literals such as \<open>1e999\<close>).
\<close>

datatype pyfloat = Fin int | NegZero | PInf | NInf | NaN

definition unit_scale :: int where
  "unit_scale = 2 ^ 1074"

text \<open>
  Rounding of an exact multiple of the unit to the nearest double, ties to even:
  below \<open>2\<^sup>5\<^sup>3\<close> units every multiple is a double; above, 53 significant bits are
  kept (\<open>round_mantissa\<close>); a result of \<open>2\<^sup>2\<^sup>0\<^sup>9\<^sup>8\<close> units (\<open>2\<^sup>1\<^sup>0\<^sup>2\<^sup>4\<close>) or more overflows.
\<close>

definition float_limit :: int where
  "float_limit = 2 ^ 2098"

definition round_mantissa :: "int \<Rightarrow> int" where
  "round_mantissa a =
     (let sh = nat (bitlen a - 53);
          q = a div 2 ^ sh;
          r = a mod 2 ^ sh;
          half = 2 ^ (sh - 1);
          q' = (if half < r \<or> (r = half \<and> odd q) then q + 1 else q)
      in q' * 2 ^ sh)"

definition round_units :: "int \<Rightarrow> pyfloat" where
  "round_units d =
     (let a = \<bar>d\<bar> in
      if a < 2 ^ 53 then Fin d
      else
        let m = round_mantissa a
        in if float_limit \<le> m then (if d < 0 then NInf else PInf)
           else Fin (if d < 0 then - m else m))"

text \<open>Float subtraction \<open>x - y\<close> (round to nearest, ties to even).\<close>

fun fsub :: "pyfloat \<Rightarrow> pyfloat \<Rightarrow> pyfloat" where
  "fsub NaN y = NaN"
| "fsub x NaN = NaN"
| "fsub PInf PInf = NaN"
| "fsub NInf NInf = NaN"
| "fsub PInf y = PInf"
| "fsub NInf y = NInf"
| "fsub x PInf = NInf"
| "fsub x NInf = PInf"
| "fsub NegZero NegZero = Fin 0"
| "fsub NegZero (Fin b) = (if b = 0 then NegZero else round_units (- b))"
| "fsub (Fin a) NegZero = round_units a"
| "fsub (Fin a) (Fin b) = round_units (a - b)"

text \<open>\<open>x < y\<close> on floats: every comparison with NaN is false, and \<open>-0.0 = 0.0\<close>.\<close>

fun fless :: "pyfloat \<Rightarrow> pyfloat \<Rightarrow> bool" where
  "fless NaN y = False"
| "fless x NaN = False"
| "fless PInf y = False"
| "fless x NInf = False"
| "fless NInf y = True"
| "fless x PInf = True"
| "fless NegZero NegZero = False"
| "fless NegZero (Fin b) = (0 < b)"
| "fless (Fin a) NegZero = (a < 0)"
| "fless (Fin a) (Fin b) = (a < b)"

text \<open>
  The values \<open>json.loads\<close> returns, which are also the values of a summary.  An object
  is the list of its members in order, with distinct keys (\<open>json.loads\<close> keeps the last
  of two members with one key); a lookup reads the first member with the key.
\<close>

datatype pyval =
    PNone
  | PBool bool
  | PInt int
  | PFloat pyfloat
  | PStr pystr
  | PList "pyval list"
  | PDict "(pystr \<times> pyval) list"

type_synonym pydict = "(pystr \<times> pyval) list"

text \<open>Exceptions are values; \<open>Inl\<close> of a result is a raised exception.\<close>

datatype pyerr =
    JSONDecodeError
  | AttributeError
  | TypeError
  | KeyError pystr
  | OverflowError
  | ValueError
  | IndexError
  | ServiceError

text \<open>Sequencing: the second step runs only when the first did not raise.\<close>

definition andthen :: "'e + 'a \<Rightarrow> ('a \<Rightarrow> 'e + 'b) \<Rightarrow> 'e + 'b" where
  "andthen r f = (case r of Inl e \<Rightarrow> Inl e | Inr x \<Rightarrow> f x)"

subsection \<open>Dictionaries with string keys\<close>

text \<open>\<open>d[k]\<close> raises KeyError on a missing key; \<open>d.get(k, default)\<close> does not.\<close>

definition subscript :: "pydict \<Rightarrow> pystr \<Rightarrow> pyerr + pyval" where
  "subscript d k = (case map_of d k of None \<Rightarrow> Inl (KeyError k) | Some v \<Rightarrow> Inr v)"

definition py_get_default :: "pydict \<Rightarrow> pystr \<Rightarrow> pyval \<Rightarrow> pyval" where
  "py_get_default d k dflt = (case map_of d k of None \<Rightarrow> dflt | Some v \<Rightarrow> v)"

definition py_get :: "pydict \<Rightarrow> pystr \<Rightarrow> pyval" where
  "py_get d k = py_get_default d k PNone"

subsection \<open>Numbers\<close>

text \<open>
  \<open>int(n)\<close> to \<open>float\<close>: correctly rounded, OverflowError when the result is not
  finite.
\<close>

definition float_of_int :: "int \<Rightarrow> pyerr + pyfloat" where
  "float_of_int n =
     (case round_units (n * unit_scale) of
        PInf \<Rightarrow> Inl OverflowError
      | NInf \<Rightarrow> Inl OverflowError
      | f \<Rightarrow> Inr f)"

text \<open>
  The operator \<open>-\<close>: \<open>bool\<close> is an \<open>int\<close>; two ints subtract exactly; with a float
  operand the int is converted first; every other operand type raises TypeError.
\<close>

fun as_int :: "pyval \<Rightarrow> int option" where
  "as_int (PBool b) = Some (if b then 1 else 0)"
| "as_int (PInt n) = Some n"
| "as_int v = None"

fun as_float :: "pyval \<Rightarrow> (pyerr + pyfloat) option" where
  "as_float (PFloat f) = Some (Inr f)"
| "as_float v = (case as_int v of None \<Rightarrow> None | Some n \<Rightarrow> Some (float_of_int n))"

definition py_sub :: "pyval \<Rightarrow> pyval \<Rightarrow> pyerr + pyval" where
  "py_sub x y =
     (case (as_int x, as_int y) of
        (Some a, Some b) \<Rightarrow> Inr (PInt (a - b))
      | _ \<Rightarrow>
        (case (as_float x, as_float y) of
           (Some (Inr a), Some (Inr b)) \<Rightarrow> Inr (PFloat (fsub a b))
         | (Some (Inl e), Some _) \<Rightarrow> Inl e
         | (Some (Inr a), Some (Inl e)) \<Rightarrow> Inl e
         | _ \<Rightarrow> Inl TypeError))"

text \<open>\<open>v >= n\<close> for an int \<open>n\<close>: exact on numbers, TypeError on everything else.\<close>

fun py_ge_int :: "pyval \<Rightarrow> int \<Rightarrow> pyerr + bool" where
  "py_ge_int (PBool b) n = Inr (n \<le> (if b then 1 else 0))"
| "py_ge_int (PInt m) n = Inr (n \<le> m)"
| "py_ge_int (PFloat f) n = Inr (\<not> fless f (Fin (n * unit_scale)) \<and> f \<noteq> NaN)"
| "py_ge_int v n = Inl TypeError"

text \<open>Truth value of an object in a condition.\<close>

fun py_truthy :: "pyval \<Rightarrow> bool" where
  "py_truthy PNone = False"
| "py_truthy (PBool b) = b"
| "py_truthy (PInt n) = (n \<noteq> 0)"
| "py_truthy (PFloat f) = (f \<noteq> Fin 0 \<and> f \<noteq> NegZero)"
| "py_truthy (PStr s) = (s \<noteq> [])"
| "py_truthy (PList xs) = (xs \<noteq> [])"
| "py_truthy (PDict d) = (d \<noteq> [])"

section \<open>Session Analyzer\<close>

text \<open>
  An event is the dict that \<open>/track\<close> stored.  \<open>analyze_session_behavior\<close> of
  \<open>local_app.py\<close> and \<open>modal_app.py\<close> (the two bodies are the same):
  the comprehension \<open>[e for e in events if e["event_type"] == t]\<close> raises KeyError at
  the first event without the key.
\<close>

type_synonym event = pydict

fun filter_event_type :: "pystr \<Rightarrow> event list \<Rightarrow> pyerr + event list" where
  "filter_event_type t [] = Inr []"
| "filter_event_type t (e # es) =
     andthen (subscript e (str ''event_type'')) (\<lambda>v.
     andthen (filter_event_type t es) (\<lambda>r.
     Inr (if v = PStr t then e # r else r)))"

text \<open>The condition of that comprehension, on an event that has the key.\<close>

definition event_type_is :: "pystr \<Rightarrow> event \<Rightarrow> bool" where
  "event_type_is t e = (map_of e (str ''event_type'') = Some (PStr t))"

definition page_type_is :: "pystr \<Rightarrow> event \<Rightarrow> bool" where
  "page_type_is p e = (py_get e (str ''page_type'') = PStr p)"

definition analyze_session_behavior :: "event list \<Rightarrow> pyerr + pydict" where
  "analyze_session_behavior events =
     (if events = [] then Inr []
      else
        andthen (filter_event_type (str ''page_view'') events) (\<lambda>page_views.
        andthen (filter_event_type (str ''click'') events) (\<lambda>clicks.
        andthen (filter_event_type (str ''add_to_cart'') events) (\<lambda>cart_actions.
        andthen (subscript (last events) (str ''timestamp'')) (\<lambda>t_last.
        andthen (subscript (hd events) (str ''timestamp'')) (\<lambda>t_first.
        andthen (py_sub t_last t_first) (\<lambda>session_duration.
        let product_pages = filter (page_type_is (str ''product'')) page_views;
            cart_pages = filter (page_type_is (str ''cart'')) page_views
        in Inr
          [ (str ''total_events'', PInt (int (length events))),
            (str ''page_views'', PInt (int (length page_views))),
            (str ''clicks'', PInt (int (length clicks))),
            (str ''cart_actions'', PInt (int (length cart_actions))),
            (str ''session_duration'', session_duration),
            (str ''product_page_views'', PInt (int (length product_pages))),
            (str ''cart_page_views'', PInt (int (length cart_pages))),
            (str ''current_page'',
               py_get_default (last events) (str ''page_type'') (PStr (str ''unknown''))),
            (str ''has_cart_items'', PBool (0 < length cart_actions)),
            (str ''events'', PList (map PDict (drop (length events - 5) events))) ])))))))"

section \<open>Decision Engine\<close>

record AIResponse =
  should_show_message :: bool
  message :: "pystr option"
  trigger_type :: "pystr option"

text \<open>\<open>get_fallback_decision\<close>; the comparison is reached only without cart items.\<close>

definition get_fallback_decision :: "pydict \<Rightarrow> pyerr + AIResponse" where
  "get_fallback_decision analysis =
     (let has_cart = py_get_default analysis (str ''has_cart_items'') (PBool False);
          total_events = py_get_default analysis (str ''total_events'') (PInt 0)
      in if py_truthy has_cart then
           Inr \<lparr> should_show_message = True,
                 message = Some (str ''Great choice! Complete your order for free shipping!''),
                 trigger_type = Some (str ''urgency'') \<rparr>
         else
           (case py_ge_int total_events 3 of
              Inl e \<Rightarrow> Inl e
            | Inr True \<Rightarrow>
                Inr \<lparr> should_show_message = True,
                      message = Some (str ''Still browsing? Get 10% off your first order!''),
                      trigger_type = Some (str ''discount'') \<rparr>
            | Inr False \<Rightarrow>
                Inr \<lparr> should_show_message = False, message = None, trigger_type = None \<rparr>))"

text \<open>
  The response text is parsed with \<open>in\<close> and \<open>re.search\<close>.  \<open>contains p s\<close> is
  \<open>p in s\<close>.
\<close>

fun starts_with :: "pystr \<Rightarrow> pystr \<Rightarrow> bool" where
  "starts_with [] s = True"
| "starts_with (p # ps) [] = False"
| "starts_with (p # ps) (c # cs) = (p = c \<and> starts_with ps cs)"

fun contains :: "pystr \<Rightarrow> pystr \<Rightarrow> bool" where
  "contains p [] = (p = [])"
| "contains p (c # cs) = (starts_with p (c # cs) \<or> contains p cs)"

text \<open>
  The class \<open>\s\<close> of a \<open>str\<close> pattern is Unicode white space: U+0009 to U+000D,
  U+001C to U+0020, U+0085, U+00A0, U+1680, U+2000 to U+200A, U+2028, U+2029, U+202F,
  U+205F and U+3000.
\<close>

definition is_space :: "nat \<Rightarrow> bool" where
  "is_space c =
     ((9 \<le> c \<and> c \<le> 13) \<or> (28 \<le> c \<and> c \<le> 32) \<or> c = 133 \<or> c = 160 \<or> c = 5760
      \<or> (8192 \<le> c \<and> c \<le> 8202) \<or> c = 8232 \<or> c = 8233 \<or> c = 8239 \<or> c = 8287
      \<or> c = 12288)"

definition dquote :: nat where
  "dquote = 34"

fun strip_prefix :: "pystr \<Rightarrow> pystr \<Rightarrow> pystr option" where
  "strip_prefix [] s = Some s"
| "strip_prefix (p # ps) [] = None"
| "strip_prefix (p # ps) (c # cs) = (if p = c then strip_prefix ps cs else None)"

text \<open>
  One attempt of the pattern \<open>KEY\s*"([^"]+)"\<close> at the start of \<open>s\<close>, giving group 1.
  Neither repetition can give a character back to what follows it (a quote is not white
  space, and the class excludes the quote), so the greedy match is the only one.
\<close>

definition match_here :: "pystr \<Rightarrow> pystr \<Rightarrow> pystr option" where
  "match_here key s =
     (case strip_prefix key s of
        None \<Rightarrow> None
      | Some r \<Rightarrow>
        (case dropWhile is_space r of
           [] \<Rightarrow> None
         | c # r' \<Rightarrow>
           if c \<noteq> dquote then None
           else
             let m = takeWhile (\<lambda>x. x \<noteq> dquote) r'
             in if m = [] \<or> dropWhile (\<lambda>x. x \<noteq> dquote) r' = [] then None else Some m))"

text \<open>\<open>re.search\<close>: the leftmost position at which the pattern matches.\<close>

fun re_search :: "pystr \<Rightarrow> pystr \<Rightarrow> pystr option" where
  "re_search key [] = match_here key []"
| "re_search key (c # cs) =
     (case match_here key (c # cs) of Some m \<Rightarrow> Some m | None \<Rightarrow> re_search key cs)"


text \<open>The match at \<open>rest\<close>, after \<open>pre\<close>, is the leftmost one.\<close>

definition leftmost_at :: "pystr \<Rightarrow> pystr \<Rightarrow> pystr \<Rightarrow> pystr \<Rightarrow> pystr \<Rightarrow> bool" where
  "leftmost_at key s m pre rest \<longleftrightarrow>
     s = pre @ rest \<and> match_here key rest = Some m
       \<and> (\<forall>p r. s = p @ r \<and> length p < length pre \<longrightarrow> match_here key r = None)"

definition message_key :: pystr where
  \<open>message_key = str ''"message":''\<close>

definition trigger_key :: pystr where
  \<open>trigger_key = str ''"trigger_type":''\<close>

definition true_marker :: pystr where
  \<open>true_marker = str ''should_show_message": true''\<close>

definition parse_ai_text :: "pystr \<Rightarrow> AIResponse" where
  "parse_ai_text ai_text =
     (if contains true_marker ai_text then
        let message_match = re_search message_key ai_text;
            trigger_match = re_search trigger_key ai_text;
            msg = (case message_match of Some m \<Rightarrow> m
                   | None \<Rightarrow> str ''Special offer just for you!'');
            trg = (case trigger_match of Some t \<Rightarrow> t | None \<Rightarrow> str ''discount'')
        in \<lparr> should_show_message = True, message = Some msg, trigger_type = Some trg \<rparr>
      else \<lparr> should_show_message = False, message = None, trigger_type = None \<rparr>)"

text \<open>
  The format specification \<open>:.1f\<close> of the prompt, applied to \<open>session_duration\<close>: an int
  is converted to a float first (OverflowError), a \<open>str\<close> has no code \<open>f\<close>
  (ValueError), the other types take no format specification (TypeError).  The other
  fields of the prompt are interpolated with \<open>str()\<close>, which does not raise.  The text of
  the prompt is an argument of the external call only, and is not built here.
\<close>

fun format_1f :: "pyval \<Rightarrow> pyerr + unit" where
  "format_1f (PBool b) = Inr ()"
| "format_1f (PInt n) = andthen (float_of_int n) (\<lambda>f. Inr ())"
| "format_1f (PFloat f) = Inr ()"
| "format_1f (PStr s) = Inl ValueError"
| "format_1f v = Inl TypeError"

text \<open>
  The external collaborator: what importing the client library, building the client and
  calling \<open>chat.completions.create\<close> come to.  Any of them may raise; the response may have
  no choice; \<open>message.content\<close> is a text or \<open>None\<close>.
\<close>

datatype llm_outcome = CallRaises | NoChoices | Content "pystr option"

definition read_content :: "llm_outcome \<Rightarrow> pyerr + AIResponse" where
  "read_content outcome =
     (case outcome of
        CallRaises \<Rightarrow> Inl ServiceError
      | NoChoices \<Rightarrow> Inl IndexError
      | Content None \<Rightarrow> Inl TypeError
      | Content (Some ai_text) \<Rightarrow> Inr (parse_ai_text ai_text))"

text \<open>
  \<open>get_ai_decision\<close> of \<open>local_app.py\<close>: \<open>get_ai_decision_try\<close> is the body of the
  \<open>try\<close>, with \<open>openai_api_key\<close> the value of \<open>os.getenv\<close>; the \<open>except\<close> clause calls
  the fallback.
\<close>

definition get_ai_decision_try :: "pydict \<Rightarrow> pystr option \<Rightarrow> llm_outcome \<Rightarrow> pyerr + AIResponse" where
  "get_ai_decision_try analysis openai_api_key outcome =
     (if openai_api_key = None \<or> openai_api_key = Some [] then get_fallback_decision analysis
      else
        andthen (format_1f (py_get_default analysis (str ''session_duration'') (PInt 0))) (\<lambda>u.
        read_content outcome))"

definition get_ai_decision :: "pydict \<Rightarrow> pystr option \<Rightarrow> llm_outcome \<Rightarrow> pyerr + AIResponse" where
  "get_ai_decision analysis openai_api_key outcome =
     (case get_ai_decision_try analysis openai_api_key outcome of
        Inl e \<Rightarrow> get_fallback_decision analysis
      | Inr r \<Rightarrow> Inr r)"

text \<open>
  \<open>get_ai_decision\<close> of \<open>modal_app.py\<close> does not read the key itself: without a key in
  the environment building the client raises, which is the outcome \<open>CallRaises\<close>.
\<close>

definition modal_get_ai_decision :: "pydict \<Rightarrow> llm_outcome \<Rightarrow> pyerr + AIResponse" where
  "modal_get_ai_decision analysis outcome =
     (case andthen (format_1f (py_get_default analysis (str ''session_duration'') (PInt 0)))
             (\<lambda>u. read_content outcome) of
        Inl e \<Rightarrow> get_fallback_decision analysis
      | Inr r \<Rightarrow> Inr r)"

section \<open>Session Store and the handlers\<close>

record session =
  events :: "event list"
  created_at :: pyfloat
  last_activity :: pyfloat


fun num_val :: "pyval \<Rightarrow> pyfloat option" where
  "num_val (PBool b) = Some (Fin (if b then unit_scale else 0))"
| "num_val (PInt n) = Some (Fin (n * unit_scale))"
| "num_val (PFloat NegZero) = Some (Fin 0)"
| "num_val (PFloat f) = Some f"
| "num_val v = None"

definition key_eq :: "pyval \<Rightarrow> pyval \<Rightarrow> bool" where
  "key_eq a b =
     (case (num_val a, num_val b) of
        (Some x, Some y) \<Rightarrow> x = y \<and> x \<noteq> NaN
      | (None, None) \<Rightarrow> a = b
      | _ \<Rightarrow> False)"












section \<open>Basic facts\<close>

lemma andthen_Inl [simp]: "andthen (Inl e) f = Inl e"
  by (simp add: andthen_def)

lemma andthen_Inr [simp]: "andthen (Inr x) f = f x"
  by (simp add: andthen_def)

lemma andthen_eq_Inr: "andthen r f = Inr y \<longleftrightarrow> (\<exists>x. r = Inr x \<and> f x = Inr y)"
  by (cases r) simp_all

lemma str_eq_iff [simp]: "str a = str b \<longleftrightarrow> a = b"
  by (simp add: str_def inj_of_char)

text \<open>What a summary of a non-empty event list is made of.\<close>

lemma analyze_Inr_fields:
  assumes "evs \<noteq> []" and "analyze_session_behavior evs = Inr a"
  shows "\<exists>page_views clicks cart_actions t_last t_first session_duration.
    filter_event_type (str ''page_view'') evs = Inr page_views \<and>
    filter_event_type (str ''click'') evs = Inr clicks \<and>
    filter_event_type (str ''add_to_cart'') evs = Inr cart_actions \<and>
    subscript (last evs) (str ''timestamp'') = Inr t_last \<and>
    subscript (hd evs) (str ''timestamp'') = Inr t_first \<and>
    py_sub t_last t_first = Inr session_duration \<and>
    a = [ (str ''total_events'', PInt (int (length evs))),
          (str ''page_views'', PInt (int (length page_views))),
          (str ''clicks'', PInt (int (length clicks))),
          (str ''cart_actions'', PInt (int (length cart_actions))),
          (str ''session_duration'', session_duration),
          (str ''product_page_views'',
             PInt (int (length (filter (page_type_is (str ''product'')) page_views)))),
          (str ''cart_page_views'',
             PInt (int (length (filter (page_type_is (str ''cart'')) page_views)))),
          (str ''current_page'',
             py_get_default (last evs) (str ''page_type'') (PStr (str ''unknown''))),
          (str ''has_cart_items'', PBool (0 < length cart_actions)),
          (str ''events'', PList (map PDict (drop (length evs - 5) evs))) ]"
  using assms
  by (auto simp add: analyze_session_behavior_def andthen_eq_Inr Let_def)

text \<open>
  In every summary the analyzer returns, the empty one included, the cart flag read by
  the fallback is a \<open>bool\<close> and the event count an \<open>int\<close>.
\<close>

lemma summary_flag_and_total:
  assumes "analyze_session_behavior evs = Inr a"
  shows "\<exists>hc n. py_get_default a (str ''has_cart_items'') (PBool False) = PBool hc
     \<and> py_get_default a (str ''total_events'') (PInt 0) = PInt n"
proof (cases "evs = []")
  case True
  with assms show ?thesis
    by (auto simp add: analyze_session_behavior_def py_get_default_def)
next
  case False
  from analyze_Inr_fields [OF False assms] show ?thesis
    by (auto simp add: py_get_default_def)
qed

lemma fallback_empty:
  "get_fallback_decision [] =
     Inr \<lparr> should_show_message = False, message = None, trigger_type = None \<rparr>"
  by (simp add: get_fallback_decision_def py_get_default_def)

subsection \<open>Floats\<close>

lemma round_units_zero [simp]: "round_units 0 = Fin 0"
  by (simp add: round_units_def)

lemma pow_shift_le:
  assumes "0 < (a::int)"
  shows "2 ^ nat (bitlen a - 53) \<le> a"
proof -
  have "(2::int) ^ nat (bitlen a - 53) \<le> 2 ^ nat (bitlen a - 1)"
    by (rule power_increasing) simp_all
  also have "\<dots> \<le> a"
    using bitlen_bounds [OF assms] by simp
  finally show ?thesis .
qed

lemma round_mantissa_pos:
  assumes "0 < (a::int)"
  shows "0 < round_mantissa a"
proof -
  have "0 < a div 2 ^ nat (bitlen a - 53)"
    using pow_shift_le [OF assms]
    by (simp add: pos_imp_zdiv_pos_iff)
  then show ?thesis by (simp add: round_mantissa_def Let_def)
qed

lemma round_units_neg:
  assumes "d < 0"
  shows "fless (round_units d) (Fin 0)"
proof -
  have a: "0 < \<bar>d\<bar>" using assms by simp
  show ?thesis
    using assms round_mantissa_pos [OF a]
    by (simp add: round_units_def Let_def)
qed

lemma fsub_less_neg:
  assumes "fless u v"
  shows "fless (fsub u v) (Fin 0)"
  using assms
  by (cases u; cases v) (simp_all add: round_units_neg)

lemma fsub_self:
  "fsub u u = (if u = PInf \<or> u = NInf \<or> u = NaN then NaN else Fin 0)"
  by (cases u) simp_all

subsection \<open>Subtraction and the comprehension\<close>

lemma py_sub_ints:
  "as_int x = Some a \<Longrightarrow> as_int y = Some b \<Longrightarrow> py_sub x y = Inr (PInt (a - b))"
  by (simp add: py_sub_def)

lemma py_sub_floats: "py_sub (PFloat u) (PFloat v) = Inr (PFloat (fsub u v))"
  by (simp add: py_sub_def)

lemma py_sub_numbers:
  assumes "as_float x = Some (Inr a)" and "as_float y = Some (Inr b)"
  shows "\<exists>d. py_sub x y = Inr d"
proof (cases "as_int x")
  case None
  with assms show ?thesis by (simp add: py_sub_def)
next
  case (Some m)
  show ?thesis
  proof (cases "as_int y")
    case None
    with Some assms show ?thesis by (simp add: py_sub_def)
  next
    case (Some n)
    with \<open>as_int x = Some m\<close> show ?thesis by (simp add: py_sub_def)
  qed
qed

lemma py_sub_self:
  assumes "py_sub t t = Inr d"
  shows "d = (if t \<in> PFloat ` {PInf, NInf, NaN} then PFloat NaN
              else if as_int t = None then PFloat (Fin 0) else PInt 0)"
proof (cases t)
  case (PFloat u)
  with assms show ?thesis by (auto simp add: py_sub_def fsub_self)
qed (use assms in \<open>auto simp add: py_sub_def\<close>)

lemma subscript_Inr_iff: "subscript d k = Inr v \<longleftrightarrow> map_of d k = Some v"
  by (simp add: subscript_def split: option.splits)

lemma filter_event_type_Inr:
  assumes "\<forall>e\<in>set evs. map_of e (str ''event_type'') \<noteq> None"
  shows "filter_event_type t evs = Inr (filter (event_type_is t) evs)"
  using assms
  by (induction evs) (auto simp add: subscript_def event_type_is_def)

lemma filter_event_type_Inl:
  assumes "e \<in> set evs" and "map_of e (str ''event_type'') = None"
  shows "filter_event_type t evs = Inl (KeyError (str ''event_type''))"
  using assms
proof (induction evs)
  case Nil
  then show ?case by simp
next
  case (Cons x xs)
  show ?case
  proof (cases "map_of x (str ''event_type'')")
    case None
    then show ?thesis by (simp add: subscript_def)
  next
    case (Some v)
    with Cons have "filter_event_type t xs = Inl (KeyError (str ''event_type''))"
      by auto
    with Some show ?thesis by (simp add: subscript_def)
  qed
qed

lemma analyze_missing_event_type:
  assumes "e \<in> set evs" and "map_of e (str ''event_type'') = None"
  shows "analyze_session_behavior evs = Inl (KeyError (str ''event_type''))"
proof -
  from assms(1) have "evs \<noteq> []" by auto
  then show ?thesis
    using filter_event_type_Inl [OF assms]
    by (simp add: analyze_session_behavior_def)
qed

text \<open>When the analyzer returns, exactly.\<close>

lemma analyze_returns:
  assumes "evs \<noteq> []"
    and "\<forall>e\<in>set evs. map_of e (str ''event_type'') \<noteq> None"
    and "map_of (last evs) (str ''timestamp'') = Some t_last"
    and "map_of (hd evs) (str ''timestamp'') = Some t_first"
    and "py_sub t_last t_first = Inr d"
  shows "\<exists>summary. analyze_session_behavior evs = Inr summary"
  using assms
  by (simp add: analyze_session_behavior_def filter_event_type_Inr subscript_def Let_def)

lemma analyze_Inr_iff:
  assumes "evs \<noteq> []"
  shows "(\<exists>summary. analyze_session_behavior evs = Inr summary) \<longleftrightarrow>
     (\<forall>e\<in>set evs. map_of e (str ''event_type'') \<noteq> None)
     \<and> (\<exists>t_last t_first d.
           map_of (last evs) (str ''timestamp'') = Some t_last
         \<and> map_of (hd evs) (str ''timestamp'') = Some t_first
         \<and> py_sub t_last t_first = Inr d)"
proof
  assume "\<exists>summary. analyze_session_behavior evs = Inr summary"
  then obtain summary where s: "analyze_session_behavior evs = Inr summary" by blast
  have "\<forall>e\<in>set evs. map_of e (str ''event_type'') \<noteq> None"
  proof
    fix e assume "e \<in> set evs"
    show "map_of e (str ''event_type'') \<noteq> None"
    proof
      assume "map_of e (str ''event_type'') = None"
      with \<open>e \<in> set evs\<close> have "analyze_session_behavior evs = Inl (KeyError (str ''event_type''))"
        by (rule analyze_missing_event_type)
      with s show False by simp
    qed
  qed
  moreover from analyze_Inr_fields [OF assms s]
  have "\<exists>t_last t_first d.
           map_of (last evs) (str ''timestamp'') = Some t_last
         \<and> map_of (hd evs) (str ''timestamp'') = Some t_first
         \<and> py_sub t_last t_first = Inr d"
    by (auto simp add: subscript_Inr_iff)
  ultimately show "(\<forall>e\<in>set evs. map_of e (str ''event_type'') \<noteq> None)
     \<and> (\<exists>t_last t_first d.
           map_of (last evs) (str ''timestamp'') = Some t_last
         \<and> map_of (hd evs) (str ''timestamp'') = Some t_first
         \<and> py_sub t_last t_first = Inr d)" by blast
next
  assume "(\<forall>e\<in>set evs. map_of e (str ''event_type'') \<noteq> None)
     \<and> (\<exists>t_last t_first d.
           map_of (last evs) (str ''timestamp'') = Some t_last
         \<and> map_of (hd evs) (str ''timestamp'') = Some t_first
         \<and> py_sub t_last t_first = Inr d)"
  then show "\<exists>summary. analyze_session_behavior evs = Inr summary"
    using analyze_returns [OF assms] by blast
qed


lemmas run_analyzer =
  analyze_session_behavior_def subscript_def py_sub_def py_get_default_def py_get_def
  page_type_is_def Let_def

section \<open>The fallback heuristic\<close>

text \<open>
  Claim C1.  For every summary (a cart flag \<open>has_cart\<close> and an event count
  \<open>total_events\<close>, as in every summary the analyzer returns, see
  \<open>summary_flag_and_total\<close>), the fallback decision is: with cart items, show the fixed
  free-shipping text with trigger \<open>urgency\<close>, whatever the count; otherwise with three
  events or more, show the fixed 10%-off text with trigger \<open>discount\<close>; otherwise show
  nothing, with no message and no trigger.  It does not raise.
\<close>

theorem fallback_decision_cases:
  assumes "py_get_default analysis (str ''has_cart_items'') (PBool False) = PBool has_cart"
    and "py_get_default analysis (str ''total_events'') (PInt 0) = PInt total_events"
  shows "get_fallback_decision analysis =
     Inr (if has_cart then
            \<lparr> should_show_message = True,
              message = Some (str ''Great choice! Complete your order for free shipping!''),
              trigger_type = Some (str ''urgency'') \<rparr>
          else if 3 \<le> total_events then
            \<lparr> should_show_message = True,
              message = Some (str ''Still browsing? Get 10% off your first order!''),
              trigger_type = Some (str ''discount'') \<rparr>
          else \<lparr> should_show_message = False, message = None, trigger_type = None \<rparr>)"
  using assms by (simp add: get_fallback_decision_def)

text \<open>Two events and no cart item: nothing is shown.\<close>

theorem fallback_decision_cases_witness:
  "get_fallback_decision
     [(str ''total_events'', PInt 2), (str ''has_cart_items'', PBool False)] =
   Inr \<lparr> should_show_message = False, message = None, trigger_type = None \<rparr>"
  using fallback_decision_cases
    [of "[(str ''total_events'', PInt 2), (str ''has_cart_items'', PBool False)]" False 2]
  by (simp add: py_get_default_def)

section \<open>The analyzer\<close>

text \<open>
  Claim C8.  For every non-empty event sequence that the analyzer summarises, the
  summary's \<open>current_page\<close> is the \<open>page_type\<close> field of the last event when the event
  has that field, and the text \<open>unknown\<close> when it has not.
\<close>

theorem current_page_of_last_event:
  assumes "evs \<noteq> []" and "analyze_session_behavior evs = Inr summary"
  shows "map_of summary (str ''current_page'') =
     Some (case map_of (last evs) (str ''page_type'') of
             Some v \<Rightarrow> v
           | None \<Rightarrow> PStr (str ''unknown''))"
  using analyze_Inr_fields [OF assms]
  by (auto simp add: py_get_default_def split: option.splits)

text \<open>One event without \<open>page_type\<close>: the current page is \<open>unknown\<close>.\<close>

theorem current_page_of_last_event_witness:
  "\<exists>summary.
     analyze_session_behavior
       [[(str ''event_type'', PStr (str ''click'')), (str ''timestamp'', PInt 5)]] = Inr summary
   \<and> map_of summary (str ''current_page'') = Some (PStr (str ''unknown''))"
proof -
  let ?evs = "[[(str ''event_type'', PStr (str ''click'')), (str ''timestamp'', PInt 5)]]"
  obtain summary where a: "analyze_session_behavior ?evs = Inr summary"
    by (simp add: run_analyzer)
  have ne: "?evs \<noteq> []" by simp
  from current_page_of_last_event [OF ne a]
  have "map_of summary (str ''current_page'') = Some (PStr (str ''unknown''))"
    by simp
  with a show ?thesis by blast
qed




text \<open>
  Claim C5, as stated, fails on the part "0 for a single event": \<open>json.loads\<close> reads
  \<open>Infinity\<close> (and \<open>1e999\<close>) as the float infinity, and infinity minus itself is NaN.
\<close>

theorem session_duration_counterexample:
  "analyze_session_behavior
     [[(str ''event_type'', PStr (str ''click'')), (str ''timestamp'', PFloat PInf)]] =
   Inr [ (str ''total_events'', PInt 1),
         (str ''page_views'', PInt 0),
         (str ''clicks'', PInt 1),
         (str ''cart_actions'', PInt 0),
         (str ''session_duration'', PFloat NaN),
         (str ''product_page_views'', PInt 0),
         (str ''cart_page_views'', PInt 0),
         (str ''current_page'', PStr (str ''unknown'')),
         (str ''has_cart_items'', PBool False),
         (str ''events'',
            PList [PDict [(str ''event_type'', PStr (str ''click'')),
                          (str ''timestamp'', PFloat PInf)]]) ]"
  by (simp add: run_analyzer)

text \<open>
  Claim C5, amended.  For every non-empty event sequence that the analyzer summarises,
  \<open>session_duration\<close> is Python's difference of the \<open>timestamp\<close> of the last event and
  the \<open>timestamp\<close> of the first, neither clamped nor reordered.  For two ints (or bools)
  it is the exact difference, negative when the last is smaller than the first; for two
  floats it is the float difference, negative when the last is smaller than the first;
  for a single event it is zero (\<open>0\<close> or \<open>0.0\<close>) when the timestamp is finite, and NaN
  when the timestamp is an infinity or NaN.
\<close>

theorem session_duration_last_minus_first:
  assumes "evs \<noteq> []" and "analyze_session_behavior evs = Inr summary"
  shows "\<exists>t_last t_first d.
      map_of (last evs) (str ''timestamp'') = Some t_last
    \<and> map_of (hd evs) (str ''timestamp'') = Some t_first
    \<and> py_sub t_last t_first = Inr d
    \<and> map_of summary (str ''session_duration'') = Some d
    \<and> (\<forall>x y. as_int t_last = Some x \<and> as_int t_first = Some y \<longrightarrow>
          d = PInt (x - y) \<and> (x < y \<longrightarrow> x - y < 0))
    \<and> (\<forall>u v. t_last = PFloat u \<and> t_first = PFloat v \<longrightarrow>
          d = PFloat (fsub u v) \<and> (fless u v \<longrightarrow> fless (fsub u v) (Fin 0)))
    \<and> (length evs = 1 \<longrightarrow>
          d = (if t_last \<in> PFloat ` {PInf, NInf, NaN} then PFloat NaN
               else if as_int t_last = None then PFloat (Fin 0) else PInt 0))"
proof -
  from analyze_Inr_fields [OF assms] obtain t_last t_first d where
    l: "map_of (last evs) (str ''timestamp'') = Some t_last" and
    f: "map_of (hd evs) (str ''timestamp'') = Some t_first" and
    s: "py_sub t_last t_first = Inr d" and
    m: "map_of summary (str ''session_duration'') = Some d"
    by (auto simp add: subscript_Inr_iff)
  have i: "\<forall>x y. as_int t_last = Some x \<and> as_int t_first = Some y \<longrightarrow>
          d = PInt (x - y) \<and> (x < y \<longrightarrow> x - y < 0)"
    using s by (auto simp add: py_sub_ints)
  have fl: "\<forall>u v. t_last = PFloat u \<and> t_first = PFloat v \<longrightarrow>
          d = PFloat (fsub u v) \<and> (fless u v \<longrightarrow> fless (fsub u v) (Fin 0))"
    using s by (auto simp add: py_sub_floats fsub_less_neg)
  have one: "length evs = 1 \<longrightarrow>
          d = (if t_last \<in> PFloat ` {PInf, NInf, NaN} then PFloat NaN
               else if as_int t_last = None then PFloat (Fin 0) else PInt 0)"
  proof
    assume "length evs = 1"
    then obtain e where "evs = [e]" by (cases evs) auto
    with l f have "t_first = t_last" by simp
    with s show "d = (if t_last \<in> PFloat ` {PInf, NInf, NaN} then PFloat NaN
               else if as_int t_last = None then PFloat (Fin 0) else PInt 0)"
      using py_sub_self by blast
  qed
  from l f s m i fl one show ?thesis by blast
qed

text \<open>Timestamps 5 then 3: the duration is \<open>-2\<close>.\<close>

theorem session_duration_last_minus_first_witness:
  "\<exists>summary.
     analyze_session_behavior
       [[(str ''event_type'', PStr (str ''click'')), (str ''timestamp'', PInt 5)],
        [(str ''event_type'', PStr (str ''click'')), (str ''timestamp'', PInt 3)]] = Inr summary
   \<and> map_of summary (str ''session_duration'') = Some (PInt (- 2))"
proof -
  let ?evs = "[[(str ''event_type'', PStr (str ''click'')), (str ''timestamp'', PInt 5)],
        [(str ''event_type'', PStr (str ''click'')), (str ''timestamp'', PInt 3)]]"
  obtain summary where a: "analyze_session_behavior ?evs = Inr summary"
    by (simp add: run_analyzer)
  have ne: "?evs \<noteq> []" by simp
  from session_duration_last_minus_first [OF ne a]
  have "map_of summary (str ''session_duration'') = Some (PInt (- 2))"
    by (auto simp add: py_sub_def)
  with a show ?thesis by blast
qed

section \<open>Empty sessions\<close>

text \<open>
  Claim C9, as stated, fails on "always-false decision": \<open>get_ai_decision\<close> has no test
  for the empty summary.  With a key in the environment the service is asked (the
  prompt shows the defaults), and the decision is what the response says.
\<close>

theorem empty_session_counterexample:
  "analyze_session_behavior [] = Inr []
   \<and> get_ai_decision [] (Some (str ''sk-test'')) (Content (Some true_marker)) =
       Inr \<lparr> should_show_message = True,
             message = Some (str ''Special offer just for you!''),
             trigger_type = Some (str ''discount'') \<rparr>
   \<and> modal_get_ai_decision [] (Content (Some true_marker)) =
       Inr \<lparr> should_show_message = True,
             message = Some (str ''Special offer just for you!''),
             trigger_type = Some (str ''discount'') \<rparr>"
  by (simp add: analyze_session_behavior_def get_ai_decision_def get_ai_decision_try_def
      modal_get_ai_decision_def py_get_default_def read_content_def parse_ai_text_def
      true_marker_def message_key_def trigger_key_def match_here_def dquote_def str_def
      float_of_int_def round_units_def)

text \<open>
  Claim C9, amended.  For an empty event list the analyzer returns the empty summary,
  and the fallback heuristic's decision for the empty summary is not to show a message.
  So the engine's decision for it is not to show a message whenever it takes the
  fallback: without a key, when the call raises, when the response has no choice or no
  text.
\<close>

theorem empty_session_fallback_is_false:
  "analyze_session_behavior [] = Inr []
   \<and> get_fallback_decision [] =
       Inr \<lparr> should_show_message = False, message = None, trigger_type = None \<rparr>
   \<and> get_ai_decision [] None outcome =
       Inr \<lparr> should_show_message = False, message = None, trigger_type = None \<rparr>
   \<and> get_ai_decision [] (Some []) outcome =
       Inr \<lparr> should_show_message = False, message = None, trigger_type = None \<rparr>
   \<and> get_ai_decision [] key CallRaises =
       Inr \<lparr> should_show_message = False, message = None, trigger_type = None \<rparr>
   \<and> get_ai_decision [] key NoChoices =
       Inr \<lparr> should_show_message = False, message = None, trigger_type = None \<rparr>
   \<and> get_ai_decision [] key (Content None) =
       Inr \<lparr> should_show_message = False, message = None, trigger_type = None \<rparr>
   \<and> modal_get_ai_decision [] CallRaises =
       Inr \<lparr> should_show_message = False, message = None, trigger_type = None \<rparr>"
  by (simp add: analyze_session_behavior_def fallback_empty get_ai_decision_def
      get_ai_decision_try_def modal_get_ai_decision_def read_content_def andthen_def
      split: sum.splits)

text \<open>Without a key, and with a key and a call that raises.\<close>

theorem empty_session_fallback_is_false_witness:
  "get_ai_decision [] None (Content (Some true_marker)) =
       Inr \<lparr> should_show_message = False, message = None, trigger_type = None \<rparr>
   \<and> get_ai_decision [] (Some (str ''sk-test'')) CallRaises =
       Inr \<lparr> should_show_message = False, message = None, trigger_type = None \<rparr>"
  using empty_session_fallback_is_false
    [of "Content (Some true_marker)" "Some (str ''sk-test'')"]
  by simp

section \<open>The decision engine and the external service\<close>

lemma fallback_on_summary:
  assumes "analyze_session_behavior evs = Inr summary"
  shows "\<exists>r. get_fallback_decision summary = Inr r"
proof -
  from summary_flag_and_total [OF assms] obtain hc n where
    "py_get_default summary (str ''has_cart_items'') (PBool False) = PBool hc"
    "py_get_default summary (str ''total_events'') (PInt 0) = PInt n"
    by blast
  then show ?thesis
    by (cases "3 \<le> n") (simp_all add: get_fallback_decision_def)
qed

lemma get_ai_decision_Inr:
  assumes "get_fallback_decision analysis = Inr r"
  shows "\<exists>r'. get_ai_decision analysis key outcome = Inr r'"
  using assms
  by (auto simp add: get_ai_decision_def split: sum.splits)

lemma get_ai_decision_fallback:
  assumes "key = None \<or> key = Some [] \<or> outcome = CallRaises \<or> outcome = NoChoices
           \<or> outcome = Content None"
  shows "get_ai_decision analysis key outcome = get_fallback_decision analysis"
  using assms
  by (auto simp add: get_ai_decision_def get_ai_decision_try_def read_content_def andthen_def
      split: sum.splits)

lemma modal_get_ai_decision_Inr:
  assumes "get_fallback_decision analysis = Inr r"
  shows "\<exists>r'. modal_get_ai_decision analysis outcome = Inr r'"
  using assms
  by (auto simp add: modal_get_ai_decision_def split: sum.splits)

lemma modal_get_ai_decision_fallback:
  assumes "outcome = CallRaises \<or> outcome = NoChoices \<or> outcome = Content None"
  shows "modal_get_ai_decision analysis outcome = get_fallback_decision analysis"
  using assms
  by (auto simp add: modal_get_ai_decision_def read_content_def andthen_def
      split: sum.splits)


text \<open>
  Claim C3.  For every summary the analyzer returns, the fallback heuristic returns a
  decision, and the engine (of either file) returns a decision for every key and every
  outcome of the external call: it never raises.  When the key is missing or empty, or
  the call raises, or the response is unusable (it has no choice, or its content is
  \<open>None\<close>), the decision is exactly the fallback heuristic's.  (A response that has a
  text is parsed, whatever the text: claim C6.)
\<close>

theorem decide_absorbs_service_errors:
  assumes "analyze_session_behavior evs = Inr summary"
  shows "\<exists>r. get_fallback_decision summary = Inr r
     \<and> (\<exists>r'. get_ai_decision summary key outcome = Inr r')
     \<and> (key = None \<or> key = Some [] \<or> outcome = CallRaises \<or> outcome = NoChoices
          \<or> outcome = Content None \<longrightarrow>
        get_ai_decision summary key outcome = Inr r)
     \<and> (\<exists>r'. modal_get_ai_decision summary outcome = Inr r')
     \<and> (outcome = CallRaises \<or> outcome = NoChoices \<or> outcome = Content None \<longrightarrow>
        modal_get_ai_decision summary outcome = Inr r)"
proof -
  from fallback_on_summary [OF assms] obtain r where r: "get_fallback_decision summary = Inr r"
    by blast
  show ?thesis
    using r get_ai_decision_Inr [OF r] modal_get_ai_decision_Inr [OF r]
      get_ai_decision_fallback [of key outcome summary]
      modal_get_ai_decision_fallback [of outcome summary]
    by auto
qed

text \<open>A cart event, a key, and a call that raises: the free-shipping message.\<close>

theorem decide_absorbs_service_errors_witness:
  "\<exists>summary.
     analyze_session_behavior
       [[(str ''event_type'', PStr (str ''add_to_cart'')), (str ''timestamp'', PInt 7)]]
       = Inr summary
   \<and> get_ai_decision summary (Some (str ''sk-test'')) CallRaises =
       Inr \<lparr> should_show_message = True,
             message = Some (str ''Great choice! Complete your order for free shipping!''),
             trigger_type = Some (str ''urgency'') \<rparr>"
proof -
  let ?evs = "[[(str ''event_type'', PStr (str ''add_to_cart'')), (str ''timestamp'', PInt 7)]]"
  obtain summary where a: "analyze_session_behavior ?evs = Inr summary"
    and f: "get_fallback_decision summary =
       Inr \<lparr> should_show_message = True,
             message = Some (str ''Great choice! Complete your order for free shipping!''),
             trigger_type = Some (str ''urgency'') \<rparr>"
    by (simp add: run_analyzer get_fallback_decision_def)
  from decide_absorbs_service_errors [OF a, of "Some (str ''sk-test'')" CallRaises] f
  have "get_ai_decision summary (Some (str ''sk-test'')) CallRaises =
       Inr \<lparr> should_show_message = True,
             message = Some (str ''Great choice! Complete your order for free shipping!''),
             trigger_type = Some (str ''urgency'') \<rparr>"
    by auto
  with a show ?thesis by blast
qed

section \<open>Parsing the response text\<close>




lemma not_space_dquote [simp]: "\<not> is_space dquote"
  by (simp add: is_space_def dquote_def)





lemma leftmost_here: "match_here key s = Some m \<Longrightarrow> leftmost_at key s m [] s"
  by (simp add: leftmost_at_def)

lemma leftmost_later:
  assumes n: "match_here key (c # cs) = None" and l: "leftmost_at key cs m pre rest"
  shows "leftmost_at key (c # cs) m (c # pre) rest"
proof -
  from l have cs: "cs = pre @ rest" and m: "match_here key rest = Some m"
    and a: "\<And>p r. cs = p @ r \<Longrightarrow> length p < length pre \<Longrightarrow> match_here key r = None"
    unfolding leftmost_at_def by blast+
  have "match_here key r = None" if "c # cs = p @ r" and "length p < length (c # pre)" for p r
  proof (cases p)
    case Nil
    with that n show ?thesis by simp
  next
    case (Cons x p')
    with that have "cs = p' @ r" and "length p' < length pre" by simp_all
    then show ?thesis by (rule a)
  qed
  with cs m show ?thesis unfolding leftmost_at_def by simp
qed

lemma re_search_leftmost:
  "re_search key s = Some m \<Longrightarrow> \<exists>pre rest. leftmost_at key s m pre rest"
proof (induction s)
  case Nil
  then have "leftmost_at key [] m [] []" by (simp add: leftmost_here)
  then show ?case by blast
next
  case (Cons c cs)
  show ?case
  proof (cases "match_here key (c # cs)")
    case (Some m')
    with Cons.prems have "match_here key (c # cs) = Some m" by simp
    then have "leftmost_at key (c # cs) m [] (c # cs)" by (rule leftmost_here)
    then show ?thesis by blast
  next
    case None
    with Cons.prems have "re_search key cs = Some m" by simp
    with Cons.IH obtain pre rest where "leftmost_at key cs m pre rest" by blast
    with None have "leftmost_at key (c # cs) m (c # pre) rest" by (rule leftmost_later)
    then show ?thesis by blast
  qed
qed






section \<open>The session store and the handlers\<close>





lemma key_eq_None [simp]: "key_eq PNone PNone"
  by (simp add: key_eq_def)


text \<open>
  Texts are one key exactly when they are the same text; the numbers \<open>1\<close>, \<open>1.0\<close> and
  \<open>True\<close> are one key; a NaN is no key's equal, its own included.
\<close>

lemma key_eq_str [simp]: "key_eq (PStr a) (PStr b) \<longleftrightarrow> a = b"
  by (simp add: key_eq_def)

lemma key_eq_one:
  "key_eq (PInt 1) (PBool True) \<and> key_eq (PInt 1) (PFloat (Fin unit_scale))
   \<and> \<not> key_eq (PFloat NaN) (PFloat NaN) \<and> \<not> key_eq (PInt 1) (PStr (str ''1''))"
  by (simp add: key_eq_def)





















section \<open>The whole pipeline\<close>


end
